theory Spec2Isabelle
  imports Complex_Main "HOL-Library.Char_ord" "HOL-Library.List_Lexorder"
begin

section \<open>Python values shared by the three source files\<close>

text \<open>
  The exceptions the modelled code can raise.  A function of the source that can raise
  returns a sum whose left summand is the exception.
\<close>

datatype py_error =
    IndexError | KeyError | TypeError | ValueError | NameError
  | AssertionError | RuntimeError | FileNotFoundError | AttributeError | OverflowError

subsection \<open>Indexing\<close>

text \<open>\<^verbatim>\<open>xs[i]\<close> on a Python list: a negative index counts from the end, an index out of
  range raises \<^verbatim>\<open>IndexError\<close>.\<close>

definition py_index :: "'a list \<Rightarrow> int \<Rightarrow> py_error + 'a" where
  "py_index xs i =
     (if 0 \<le> i \<and> i < int (length xs) then Inr (xs ! nat i)
      else if i < 0 \<and> - int (length xs) \<le> i then Inr (xs ! nat (int (length xs) + i))
      else Inl IndexError)"

subsection \<open>Formatting integers\<close>

text \<open>A character of a string is a code point below 256.\<close>

definition digit_char :: "nat \<Rightarrow> char" where
  "digit_char d = ''0123456789'' ! (d mod 10)"

function digits :: "nat \<Rightarrow> string" where
  "digits n = (if n < 10 then [digit_char n] else digits (n div 10) @ [digit_char (n mod 10)])"
  by pat_completeness auto
termination
  by (relation "measure (\<lambda>n. n)") auto

declare digits.simps [simp del]

text \<open>\<^verbatim>\<open>'{}'.format(i)\<close> for an \<^verbatim>\<open>int\<close>.\<close>

definition str_int :: "int \<Rightarrow> string" where
  "str_int i = (if i < 0 then ''-'' @ digits (nat (- i)) else digits (nat i))"

definition zfill :: "nat \<Rightarrow> string \<Rightarrow> string" where
  "zfill w s = replicate (w - length s) (CHR ''0'') @ s"

text \<open>\<^verbatim>\<open>'{:0wd}'.format(i)\<close>: the sign first, then zeros up to the width \<open>w\<close>, the sign
  counted in the width; a number with more digits is not cut.\<close>

definition format_0d :: "nat \<Rightarrow> int \<Rightarrow> string" where
  "format_0d w i =
     (if i < 0 then ''-'' @ zfill (w - 1) (digits (nat (- i))) else zfill w (digits (nat i)))"

subsection \<open>Paths\<close>

text \<open>\<^verbatim>\<open>os.path.join(a, b)\<close> of \<^verbatim>\<open>posixpath\<close>: an absolute \<open>b\<close> replaces \<open>a\<close>; otherwise
  the two are joined by one separator unless \<open>a\<close> is empty or ends with one.\<close>

definition path_join :: "string \<Rightarrow> string \<Rightarrow> string" where
  "path_join a b =
     (if b \<noteq> [] \<and> hd b = CHR ''/'' then b
      else if a = [] \<or> last a = CHR ''/'' then a @ b
      else a @ ''/'' @ b)"

subsection \<open>Numbers\<close>

text \<open>
  A Python \<^verbatim>\<open>float\<close> is an IEEE-754 double: a finite one is given by its exact value, a
  rational.  The sign of a zero is not kept (\<^verbatim>\<open>int\<close> and the comparisons do not see it).
  A number of a JSON file is an \<^verbatim>\<open>int\<close> when its literal has neither fraction nor
  exponent (\<open>JInt\<close>) and else the \<^verbatim>\<open>float\<close> nearest to the value of its literal
  (\<open>JReal\<close>); \<^verbatim>\<open>json.load\<close> also reads \<^verbatim>\<open>Infinity\<close>, \<^verbatim>\<open>-Infinity\<close> and \<^verbatim>\<open>NaN\<close>.
\<close>

datatype pyfloat = Finite rat | PosInf | NegInf | NaN

datatype pynum = PyInt int | PyFloat pyfloat

datatype json_num = JInt int | JReal rat | JInfinity | JNegInfinity | JNaN

text \<open>The number of binary digits of a positive integer, and the powers of two.\<close>

function bit_length :: "int \<Rightarrow> int" where
  "bit_length n = (if n \<le> 0 then 0 else 1 + bit_length (n div 2))"
  by pat_completeness auto
termination
  by (relation "measure nat") auto

declare bit_length.simps [simp del]

function two_power :: "int \<Rightarrow> rat" where
  "two_power e =
     (if e \<le> 0 then 1
      else if even e then two_power (e div 2) * two_power (e div 2)
      else 2 * (two_power (e div 2) * two_power (e div 2)))"
  by pat_completeness auto
termination
  by (relation "measure nat") auto

declare two_power.simps [simp del]

definition pow2 :: "int \<Rightarrow> rat" where
  "pow2 e = (if 0 \<le> e then two_power e else 1 / two_power (- e))"

text \<open>For a positive \<open>a\<close>, the exponent \<open>e\<close> with \<^verbatim>\<open>2^e <= a < 2^(e+1)\<close>.\<close>

definition floor_log2 :: "rat \<Rightarrow> int" where
  "floor_log2 a =
     (if 1 \<le> a then bit_length (floor a) - 1 else - bit_length (ceiling (1 / a) - 1))"

text \<open>
  Rounding to the nearest double, ties to the even significand: a double has 53
  significant bits, so the last bit of a magnitude with exponent \<open>e\<close> is worth
  \<^verbatim>\<open>2^(e-52)\<close>, and \<^verbatim>\<open>2^(-1074)\<close> below the normal range; a magnitude that rounds to
  \<^verbatim>\<open>2^1024\<close> or more is an infinity.
\<close>

definition round_tie :: "int \<Rightarrow> rat \<Rightarrow> int" where
  "round_tie n r =
     (if r < 1 / 2 then n else if 1 / 2 < r then n + 1 else if even n then n else n + 1)"

definition round_half_even :: "rat \<Rightarrow> int" where
  "round_half_even y = round_tie (floor y) (y - of_int (floor y))"

definition round_to_ulp :: "rat \<Rightarrow> rat \<Rightarrow> rat" where
  "round_to_ulp a ulp = of_int (round_half_even (a / ulp)) * ulp"

definition double_of_magnitude :: "bool \<Rightarrow> rat \<Rightarrow> pyfloat" where
  "double_of_magnitude positive y =
     (if pow2 1024 \<le> y then (if positive then PosInf else NegInf)
      else Finite (if positive then y else - y))"

definition round_double :: "rat \<Rightarrow> pyfloat" where
  "round_double x =
     (if x = 0 then Finite 0
      else double_of_magnitude (0 < x)
             (round_to_ulp \<bar>x\<bar> (pow2 (max (floor_log2 \<bar>x\<bar>) (- 1022) - 52))))"

text \<open>The product of two floats: the exact product, rounded; the infinities and
  \<^verbatim>\<open>nan\<close> as IEEE-754 has them.\<close>

fun float_sign :: "pyfloat \<Rightarrow> int" where
  "float_sign (Finite x) = (if x = 0 then 0 else if 0 < x then 1 else - 1)"
| "float_sign PosInf = 1"
| "float_sign NegInf = - 1"
| "float_sign NaN = 0"

fun float_mul :: "pyfloat \<Rightarrow> pyfloat \<Rightarrow> pyfloat" where
  "float_mul (Finite x) (Finite y) = round_double (x * y)"
| "float_mul NaN b = NaN"
| "float_mul a NaN = NaN"
| "float_mul a b =
     (if float_sign a * float_sign b = 0 then NaN
      else if 0 < float_sign a * float_sign b then PosInf
      else NegInf)"

text \<open>
  \<^verbatim>\<open>a * b\<close> on numbers: exact on two \<^verbatim>\<open>int\<close>s; an \<^verbatim>\<open>int\<close> beside a \<^verbatim>\<open>float\<close> is
  converted first, with \<^verbatim>\<open>OverflowError\<close> when it is too large.  \<^verbatim>\<open>int(x)\<close> truncates
  towards zero and raises on an infinity (\<^verbatim>\<open>OverflowError\<close>) and on \<^verbatim>\<open>nan\<close>
  (\<^verbatim>\<open>ValueError\<close>).
\<close>

definition float_of_int :: "int \<Rightarrow> py_error + pyfloat" where
  "float_of_int i =
     (case round_double (of_int i) of
        Finite x \<Rightarrow> Inr (Finite x)
      | _ \<Rightarrow> Inl OverflowError)"

fun py_mul :: "pynum \<Rightarrow> pynum \<Rightarrow> py_error + pynum" where
  "py_mul (PyInt a) (PyInt b) = Inr (PyInt (a * b))"
| "py_mul (PyFloat x) (PyFloat y) = Inr (PyFloat (float_mul x y))"
| "py_mul (PyInt a) (PyFloat y) =
     (case float_of_int a of Inl e \<Rightarrow> Inl e | Inr x \<Rightarrow> Inr (PyFloat (float_mul x y)))"
| "py_mul (PyFloat x) (PyInt b) =
     (case float_of_int b of Inl e \<Rightarrow> Inl e | Inr y \<Rightarrow> Inr (PyFloat (float_mul x y)))"

fun py_int :: "pynum \<Rightarrow> py_error + int" where
  "py_int (PyInt i) = Inr i"
| "py_int (PyFloat (Finite x)) = Inr (if 0 \<le> x then floor x else ceiling x)"
| "py_int (PyFloat NaN) = Inl ValueError"
| "py_int (PyFloat PosInf) = Inl OverflowError"
| "py_int (PyFloat NegInf) = Inl OverflowError"

fun json_number :: "json_num \<Rightarrow> pynum" where
  "json_number (JInt i) = PyInt i"
| "json_number (JReal r) = PyFloat (round_double r)"
| "json_number JInfinity = PyFloat PosInf"
| "json_number JNegInfinity = PyFloat NegInf"
| "json_number JNaN = PyFloat NaN"

text \<open>\<^verbatim>\<open>int(a * b)\<close>.\<close>

definition int_of_product :: "pynum \<Rightarrow> pynum \<Rightarrow> py_error + int" where
  "int_of_product a b = (case py_mul a b of Inl e \<Rightarrow> Inl e | Inr p \<Rightarrow> py_int p)"

section \<open>The frame loaders\<close>

text \<open>
  Both dataset modules define \<^verbatim>\<open>video_loader(video_dir_path, frame_indices, image_loader)\<close>.
  The file system is the predicate \<open>exists\<close> (\<^verbatim>\<open>os.path.exists\<close>) and the decoder is
  the parameter \<open>image_loader\<close>.  The loader of \<^verbatim>\<open>activitynet_train.py\<close> names its
  files \<^verbatim>\<open>image_{:05d}.jpg\<close> and prints a line for the missing file; it returns the
  lines it printed together with the video.  The loader of
  \<^verbatim>\<open>activitynet_captions.py\<close> names its files \<^verbatim>\<open>{:06d}.jpg\<close> and prints nothing.
\<close>

datatype log_line =
    DoesNotExist string
  | StackFailed
  | PrintId string
  | PrintIndices "int list"

definition image_path :: "string \<Rightarrow> int \<Rightarrow> string" where
  "image_path video_dir_path i = path_join video_dir_path (''image_'' @ format_0d 5 i @ ''.jpg'')"

fun video_loader_loop ::
  "(string \<Rightarrow> bool) \<Rightarrow> (string \<Rightarrow> 'img) \<Rightarrow> string \<Rightarrow> int list \<Rightarrow> 'img list
    \<Rightarrow> log_line list \<times> 'img list" where
  "video_loader_loop exists image_loader video_dir_path [] video = ([], video)"
| "video_loader_loop exists image_loader video_dir_path (i # frame_indices) video =
     (if exists (image_path video_dir_path i)
      then video_loader_loop exists image_loader video_dir_path frame_indices
             (video @ [image_loader (image_path video_dir_path i)])
      else ([DoesNotExist (image_path video_dir_path i)], video))"

definition video_loader ::
  "(string \<Rightarrow> bool) \<Rightarrow> string \<Rightarrow> int list \<Rightarrow> (string \<Rightarrow> 'img) \<Rightarrow> log_line list \<times> 'img list" where
  "video_loader exists video_dir_path frame_indices image_loader =
     video_loader_loop exists image_loader video_dir_path frame_indices []"

definition image_path_captions :: "string \<Rightarrow> int \<Rightarrow> string" where
  "image_path_captions video_dir_path i = path_join video_dir_path (format_0d 6 i @ ''.jpg'')"

fun video_loader_captions_loop ::
  "(string \<Rightarrow> bool) \<Rightarrow> (string \<Rightarrow> 'img) \<Rightarrow> string \<Rightarrow> int list \<Rightarrow> 'img list \<Rightarrow> 'img list" where
  "video_loader_captions_loop exists image_loader video_dir_path [] video = video"
| "video_loader_captions_loop exists image_loader video_dir_path (i # frame_indices) video =
     (if exists (image_path_captions video_dir_path i)
      then video_loader_captions_loop exists image_loader video_dir_path frame_indices
             (video @ [image_loader (image_path_captions video_dir_path i)])
      else video)"

definition video_loader_captions ::
  "(string \<Rightarrow> bool) \<Rightarrow> string \<Rightarrow> int list \<Rightarrow> (string \<Rightarrow> 'img) \<Rightarrow> 'img list" where
  "video_loader_captions exists video_dir_path frame_indices image_loader =
     video_loader_captions_loop exists image_loader video_dir_path frame_indices []"

section \<open>Tensors\<close>

text \<open>
  A tensor is its shape and its elements in row-major order.  A frame of a clip is either
  an image as the loader decoded it or a tensor: \<^verbatim>\<open>torch.stack\<close> accepts only a
  non-empty list of tensors of one shape, and \<^verbatim>\<open>permute(1, 0, 2, 3)\<close> only a tensor of
  four dimensions.
\<close>

record 'a tensor =
  shape :: "nat list"
  elems :: "'a list"

datatype ('img, 'a) frame = PIL 'img | Tensor "'a tensor"

fun is_tensor :: "('img, 'a) frame \<Rightarrow> bool" where
  "is_tensor (PIL _) = False"
| "is_tensor (Tensor _) = True"

fun the_tensor :: "('img, 'a) frame \<Rightarrow> 'a tensor" where
  "the_tensor (Tensor t) = t"
| "the_tensor (PIL _) = \<lparr>shape = [], elems = []\<rparr>"

definition torch_stack :: "('img, 'a) frame list \<Rightarrow> py_error + 'a tensor" where
  "torch_stack clip =
     (if clip = [] then Inl RuntimeError
      else if \<not> list_all is_tensor clip then Inl TypeError
      else if \<not> list_all (\<lambda>f. shape (the_tensor f) = shape (the_tensor (hd clip))) clip
        then Inl RuntimeError
      else Inr \<lparr>shape = length clip # shape (the_tensor (hd clip)),
                elems = concat (map (\<lambda>f. elems (the_tensor f)) clip)\<rparr>)"

definition permute_1023 :: "'a tensor \<Rightarrow> py_error + 'a tensor" where
  "permute_1023 t =
     (case shape t of
        [d0, d1, d2, d3] \<Rightarrow>
          Inr \<lparr>shape = [d1, d0, d2, d3],
               elems = concat (map (\<lambda>j. concat (map (\<lambda>i.
                          take (d2 * d3) (drop ((i * d1 + j) * (d2 * d3)) (elems t)))
                        [0..<d0])) [0..<d1])\<rparr>
      | _ \<Rightarrow> Inl RuntimeError)"

text \<open>\<^verbatim>\<open>clip.size(1)\<close>.\<close>

definition size1 :: "'a tensor \<Rightarrow> int" where
  "size1 t = int (shape t ! 1)"

section \<open>The training dataset: \<^verbatim>\<open>ActivityNetCaptions_Train\<close>\<close>

subsection \<open>Records built by \<^verbatim>\<open>__init__\<close>\<close>


record video_record =
  id' :: string
  duration :: int
  sentences :: "string list"
  timestamps :: "(int \<times> int) list"
  fps :: pynum







text \<open>
  The inner loop over \<^verbatim>\<open>obj["timestamps"]\<close>: \<^verbatim>\<open>max(1, int(t[0]*obj["fps"]))\<close> and
  \<^verbatim>\<open>min(lastframenum, int(t[1]*obj["fps"]))\<close>.  An exception of a product or of
  \<^verbatim>\<open>int\<close> leaves the loop.
\<close>

fun convert_timestamps ::
  "pynum \<Rightarrow> int \<Rightarrow> (json_num \<times> json_num) list \<Rightarrow> (int \<times> int) list
    \<Rightarrow> py_error + (int \<times> int) list" where
  "convert_timestamps obj_fps lastframenum [] stamps = Inr stamps"
| "convert_timestamps obj_fps lastframenum (t # ts) stamps =
     (case int_of_product (json_number (fst t)) obj_fps of
        Inl e \<Rightarrow> Inl e
      | Inr start \<Rightarrow>
          (case int_of_product (json_number (snd t)) obj_fps of
             Inl e \<Rightarrow> Inl e
           | Inr stop \<Rightarrow>
               convert_timestamps obj_fps lastframenum ts
                 (stamps @ [(max 1 start, min lastframenum stop)])))"



text \<open>
  The dataset object.  \<open>loader\<close> is what \<^verbatim>\<open>get_loader()\<close> returned: a function of the
  video directory and the frame indices that returns the lines it printed and the images.
  A transform that draws random numbers takes them as its first argument.  The target
  transform, which \<^verbatim>\<open>__init__\<close> stores and \<^verbatim>\<open>__getitem__\<close> never uses, and the line
  that prints the length of the dataset are left out.
\<close>

record ('img, 'a, 'r) train_dataset =
  frm_path :: string
  data :: "video_record list"
  spatial_transform :: "('r \<Rightarrow> 'img \<Rightarrow> ('img, 'a) frame) option"
  temporal_transform :: "('r \<Rightarrow> int list \<Rightarrow> int list) option"
  loader :: "string \<Rightarrow> int list \<Rightarrow> log_line list \<times> 'img list"
  len :: nat
  sample_duration :: int
  n_actions :: int

text \<open>\<^verbatim>\<open>get_default_video_loader()\<close>: \<^verbatim>\<open>video_loader\<close> with its image loader fixed.\<close>

definition get_default_video_loader ::
  "(string \<Rightarrow> bool) \<Rightarrow> (string \<Rightarrow> 'img) \<Rightarrow> string \<Rightarrow> int list \<Rightarrow> log_line list \<times> 'img list" where
  "get_default_video_loader exists image_loader =
     (\<lambda>video_dir_path frame_indices. video_loader exists video_dir_path frame_indices image_loader)"


subsection \<open>\<^verbatim>\<open>__getitem__\<close>\<close>

text \<open>\<^verbatim>\<open>list(range(a, b))\<close>.\<close>

definition py_range :: "int \<Rightarrow> int \<Rightarrow> int list" where
  "py_range a b = [a..b - 1]"

text \<open>
  The first loop of \<^verbatim>\<open>__getitem__\<close>, over
  \<^verbatim>\<open>enumerate(zip(sentences, timestamps))\<close>, with its three lists.
\<close>

record candidates =
  c_sentences :: "string list"
  c_timestamps :: "(int \<times> int) list"
  c_fidlist :: "int list list"

fun candidates_loop :: "int \<Rightarrow> int \<Rightarrow> (string \<times> (int \<times> int)) list \<Rightarrow> candidates \<Rightarrow> candidates" where
  "candidates_loop n num [] c = c"
| "candidates_loop n num ((sentence, timestamp) # rest) c =
     (if num = n then c
      else if fst timestamp < snd timestamp
        then candidates_loop n (num + 1) rest
               \<lparr>c_sentences = c_sentences c @ [sentence],
                c_timestamps = c_timestamps c @ [timestamp],
                c_fidlist = c_fidlist c @ [py_range (fst timestamp) (snd timestamp)]\<rparr>
        else candidates_loop n (num + 1) rest c)"

definition build_candidates :: "int \<Rightarrow> video_record \<Rightarrow> candidates" where
  "build_candidates n r =
     candidates_loop n 0 (zip (sentences r) (timestamps r))
       \<lparr>c_sentences = [], c_timestamps = [], c_fidlist = []\<rparr>"

text \<open>
  One round of the \<^verbatim>\<open>while True\<close> loop draws three things: the number that
  \<^verbatim>\<open>np.random.randint(0, len(sentences))\<close> returns (any number below the bound: the draw
  is reduced modulo the bound) and the random numbers of the two transforms.
\<close>

record 'r draw =
  randint_raw :: nat
  temporal_seed :: 'r
  spatial_seed :: 'r

record 'a sample =
  sample_id :: string
  sample_duration_frames :: int
  sample_sentence :: string
  sample_timestamp :: "int \<times> int"
  sample_fps :: pynum
  clip :: "'a tensor"

datatype 'a outcome = Returned 'a | Raised py_error | Looping

text \<open>The body of the \<^verbatim>\<open>try\<close>: stack, permute, and the assertion on the size.\<close>

definition stack_and_check :: "int \<Rightarrow> ('img, 'a) frame list \<Rightarrow> py_error + 'a tensor" where
  "stack_and_check duration_of_sample frames =
     (case torch_stack frames of
        Inl e \<Rightarrow> Inl e
      | Inr stacked \<Rightarrow>
          (case permute_1023 stacked of
             Inl e \<Rightarrow> Inl e
           | Inr permuted \<Rightarrow>
               if size1 permuted = duration_of_sample then Inr permuted
               else Inl AssertionError))"

text \<open>
  One round up to the end of the \<^verbatim>\<open>try\<close>: the lines the loader printed, the frame
  indices after the temporal transform, and the sample or the exception the \<^verbatim>\<open>except\<close>
  clause caught.
\<close>

definition attempt ::
  "('img, 'a, 'r) train_dataset \<Rightarrow> video_record \<Rightarrow> candidates \<Rightarrow> 'r draw
    \<Rightarrow> log_line list \<times> int list \<times> (py_error + 'a sample)" where
  "attempt ds r c d =
     (let actionnum = randint_raw d mod length (c_sentences c);
          sentence = c_sentences c ! actionnum;
          timestamp = c_timestamps c ! actionnum;
          frame_indices =
            (case temporal_transform ds of
               None \<Rightarrow> c_fidlist c ! actionnum
             | Some tt \<Rightarrow> tt (temporal_seed d) (c_fidlist c ! actionnum));
          loaded = loader ds (path_join (frm_path ds) (id' r)) frame_indices;
          frames =
            (case spatial_transform ds of
               None \<Rightarrow> map PIL (snd loaded)
             | Some st \<Rightarrow> map (st (spatial_seed d)) (snd loaded))
      in (fst loaded, frame_indices,
          (case stack_and_check (sample_duration ds) frames of
             Inl e \<Rightarrow> Inl e
           | Inr t \<Rightarrow>
               Inr \<lparr>sample_id = id' r, sample_duration_frames = duration r,
                    sample_sentence = sentence, sample_timestamp = timestamp,
                    sample_fps = fps r, clip = t\<rparr>)))"

text \<open>
  The \<^verbatim>\<open>while True\<close> loop.  \<^verbatim>\<open>np.random.randint(0, 0)\<close> raises \<^verbatim>\<open>ValueError\<close>, outside
  the \<^verbatim>\<open>try\<close>.  The list of draws is what the random generators deliver, one element
  for each round; \<open>Looping\<close> is the loop still running when the list is used up.
\<close>

fun retry_loop ::
  "('img, 'a, 'r) train_dataset \<Rightarrow> video_record \<Rightarrow> candidates \<Rightarrow> 'r draw list
    \<Rightarrow> log_line list \<times> 'a sample outcome" where
  "retry_loop ds r c [] =
     (if int (length (c_sentences c)) \<le> 0 then ([], Raised ValueError) else ([], Looping))"
| "retry_loop ds r c (d # draws) =
     (if int (length (c_sentences c)) \<le> 0 then ([], Raised ValueError)
      else (case attempt ds r c d of
              (printed, frame_indices, Inr s) \<Rightarrow> (printed, Returned s)
            | (printed, frame_indices, Inl e) \<Rightarrow>
                (printed @ [StackFailed, PrintId (id' r), PrintIndices frame_indices]
                   @ fst (retry_loop ds r c draws),
                 snd (retry_loop ds r c draws))))"

definition getitem ::
  "('img, 'a, 'r) train_dataset \<Rightarrow> int \<Rightarrow> 'r draw list \<Rightarrow> log_line list \<times> 'a sample outcome" where
  "getitem ds index draws =
     (case py_index (data ds) index of
        Inl e \<Rightarrow> ([], Raised e)
      | Inr r \<Rightarrow> retry_loop ds r (build_candidates (n_actions ds) r) draws)"

subsection \<open>A small dataset\<close>

text \<open>
  One video with two segments.  The frames of the first segment are on disk, those of the
  second are not.  The spatial transform turns an image into a tensor of shape
  \<open>(1, 1, 1)\<close>; no temporal transform is configured; a clip has two frames.
\<close>

definition example_exists :: "string \<Rightarrow> bool" where
  "example_exists p =
     (p \<in> set [''/frames/v_a/image_00001.jpg'', ''/frames/v_a/image_00002.jpg''])"

definition example_record :: video_record where
  "example_record =
     \<lparr>id' = ''v_a'', duration = 40, sentences = [''a dog runs'', ''a dog sits''],
      timestamps = [(1, 3), (5, 7)], fps = PyFloat (Finite 5)\<rparr>"

definition example_dataset :: "(string, nat, nat) train_dataset" where
  "example_dataset =
     \<lparr>frm_path = ''/frames'',
      data = [example_record],
      spatial_transform = Some (\<lambda>seed img. Tensor \<lparr>shape = [1, 1, 1], elems = [length img]\<rparr>),
      temporal_transform = None,
      loader = get_default_video_loader example_exists (\<lambda>p. p),
      len = 1,
      sample_duration = 2,
      n_actions = 10\<rparr>"

definition second_segment :: "nat draw" where
  "second_segment = \<lparr>randint_raw = 1, temporal_seed = 0, spatial_seed = 0\<rparr>"

definition first_segment :: "nat draw" where
  "first_segment = \<lparr>randint_raw = 0, temporal_seed = 0, spatial_seed = 0\<rparr>"

definition example_sample :: "nat sample" where
  "example_sample =
     \<lparr>sample_id = ''v_a'', sample_duration_frames = 40, sample_sentence = ''a dog runs'',
      sample_timestamp = (1, 3), sample_fps = PyFloat (Finite 5),
      clip = \<lparr>shape = [1, 2, 1, 1], elems = [27, 27]\<rparr>\<rparr>"

text \<open>A video whose segments are all empty, and one whose first segment is empty.\<close>

definition empty_segments :: video_record where
  "empty_segments =
     \<lparr>id' = ''v_e'', duration = 40, sentences = [''a'', ''b''],
      timestamps = [(5, 5), (9, 3)], fps = PyFloat (Finite 5)\<rparr>"

definition two_segments :: video_record where
  "two_segments =
     \<lparr>id' = ''v_two'', duration = 40, sentences = [''a'', ''b''],
      timestamps = [(5, 5), (1, 3)], fps = PyFloat (Finite 5)\<rparr>"

text \<open>A video with three segments, the first of them empty.\<close>

definition three_segments :: video_record where
  "three_segments =
     \<lparr>id' = ''v_three'', duration = 40, sentences = [''a'', ''b'', ''c''],
      timestamps = [(5, 5), (1, 3), (2, 4)], fps = PyFloat (Finite 5)\<rparr>"

text \<open>
  The candidate lists in the words of the specification, for comparison with
  \<open>build_candidates\<close>: the segments whose start frame is below their end frame,
  truncated to the first \<open>n\<close> of them.  The source cuts the annotation first and filters
  afterwards.
\<close>

definition candidates_filter_then_truncate :: "int \<Rightarrow> video_record \<Rightarrow> candidates" where
  "candidates_filter_then_truncate n r =
     (let kept = take (nat n)
                   (filter (\<lambda>z. fst (snd z) < snd (snd z)) (zip (sentences r) (timestamps r)))
      in \<lparr>c_sentences = map fst kept,
          c_timestamps = map snd kept,
          c_fidlist = map (\<lambda>z. py_range (fst (snd z)) (snd (snd z))) kept\<rparr>)"

subsection \<open>An annotation file with one video\<close>





section \<open>The training script \<^verbatim>\<open>train.py\<close>: resume and the epoch loop\<close>

text \<open>
  The model covers the block \<^verbatim>\<open># apply pretrained model\<close> and the start of the training
  loop.  The command line is the record \<open>args\<close>; the checkpoint files on disk are a
  partial function from paths to saved weights, so that \<^verbatim>\<open>os.path.exists\<close> is
  definedness and \<^verbatim>\<open>torch.load\<close> is the lookup.  A sub-model is \<open>Fresh\<close> as constructed
  and \<open>Loaded w\<close> after \<^verbatim>\<open>load_state_dict\<close>.  The work inside an epoch is numerical and
  is not modelled: the loop is the list of the epoch numbers it iterates over.  The
  statements before the block (arguments, vocabulary, dataset, construction of the two
  sub-models) are taken as done, and the statements between the block and the assertion
  (device placement, loss, optimizer, the count of parameters) are left out.
\<close>

record args =
  model_path :: string
  cnnmethod :: string
  rnnmethod :: string
  start_from_ep :: int
  num_layers :: int
  imsize :: int
  clip_len :: int
  bs :: int
  lstm_stacks :: int
  max_epochs :: int

datatype 'w weights = Fresh | Loaded 'w

record 'w models =
  video_encoder :: "'w weights"
  caption_gen :: "'w weights"

text \<open>\<^verbatim>\<open>"b{:03d}_s{:03d}_l{:03d}".format(args.bs, args.imsize, args.clip_len)\<close>.\<close>

definition config_dir :: "args \<Rightarrow> string" where
  "config_dir a =
     ''b'' @ format_0d 3 (bs a) @ ''_s'' @ format_0d 3 (imsize a) @ ''_l'' @ format_0d 3 (clip_len a)"

definition enc_model_path :: "args \<Rightarrow> int \<Rightarrow> string" where
  "enc_model_path a offset =
     path_join
       (path_join (path_join (model_path a) (cnnmethod a @ ''_'' @ str_int (num_layers a)))
          (config_dir a))
       (''ep'' @ format_0d 4 offset @ ''.ckpt'')"

definition dec_model_path :: "args \<Rightarrow> int \<Rightarrow> string" where
  "dec_model_path a offset =
     path_join
       (path_join (path_join (model_path a) (rnnmethod a @ ''_'' @ str_int (lstm_stacks a)))
          (config_dir a))
       (''ep'' @ format_0d 4 offset @ ''.ckpt'')"

text \<open>The resume block: the offset, the two sub-models and the lines printed.\<close>

definition resume :: "args \<Rightarrow> (string \<Rightarrow> 'w option) \<Rightarrow> int \<times> 'w models \<times> string list" where
  "resume a files =
     (if start_from_ep a \<noteq> 0 then
        (case files (enc_model_path a (start_from_ep a)) of
           None \<Rightarrow>
             (0, \<lparr>video_encoder = Fresh, caption_gen = Fresh\<rparr>,
              [''didn't find file, starting encoder from scratch''])
         | Some enc \<Rightarrow>
             (case files (dec_model_path a (start_from_ep a)) of
                None \<Rightarrow>
                  (0, \<lparr>video_encoder = Fresh, caption_gen = Fresh\<rparr>,
                   [''didn't find file, starting encoder from scratch''])
              | Some dec \<Rightarrow>
                  (start_from_ep a, \<lparr>video_encoder = Loaded enc, caption_gen = Loaded dec\<rparr>,
                   [''restarting training from epoch '' @ str_int (start_from_ep a)])))
      else (start_from_ep a, \<lparr>video_encoder = Fresh, caption_gen = Fresh\<rparr>, []))"

text \<open>
  The assertion \<^verbatim>\<open>args.max_epochs > offset\<close> and the loop
  \<^verbatim>\<open>for ep in range(offset, args.max_epochs)\<close>: the lines printed up to the loop, and
  either the exception or the epochs of the loop with the sub-models it starts from.
\<close>

definition main :: "args \<Rightarrow> (string \<Rightarrow> 'w option) \<Rightarrow> string list \<times> (py_error + int list \<times> 'w models)" where
  "main a files =
     (case resume a files of
        (offset, ms, printed) \<Rightarrow>
          if max_epochs a > offset
          then (printed @ [''start training''], Inr ([offset..max_epochs a - 1], ms))
          else (printed, Inl AssertionError))"

text \<open>The defaults of the argument parser.\<close>

definition default_args :: args where
  "default_args =
     \<lparr>model_path = ''../models'', cnnmethod = ''resnet'', rnnmethod = ''LSTM'',
      start_from_ep = 0, num_layers = 10, imsize = 224, clip_len = 16, bs = 64,
      lstm_stacks = 3, max_epochs = 20\<rparr>"

text \<open>A disk that holds the two checkpoints of epoch 3, with weights 30 and 31.\<close>

definition epoch3_only :: "string \<Rightarrow> nat option" where
  "epoch3_only p =
     (if p = ''../models/resnet_10/b064_s224_l016/ep0003.ckpt'' then Some 30
      else if p = ''../models/LSTM_3/b064_s224_l016/ep0003.ckpt'' then Some 31
      else None)"

section \<open>The dataset module \<^verbatim>\<open>activitynet_captions.py\<close>\<close>

subsection \<open>\<^verbatim>\<open>id_loader\<close>\<close>

text \<open>
  The JSON file of ids is the parameter \<open>read_ids\<close>: the list the file holds, \<open>None\<close>
  when the file cannot be opened.  \<^verbatim>\<open>id[2:]\<close> drops the first two characters.  The loop
  over \<^verbatim>\<open>enumerate(id2key)\<close> fills the dictionary \<open>key2id\<close>.
\<close>

fun key2id_loop :: "(string \<Rightarrow> nat option) \<Rightarrow> nat \<Rightarrow> string list \<Rightarrow> (string \<Rightarrow> nat option)" where
  "key2id_loop key2id index [] = key2id"
| "key2id_loop key2id index (videoid # rest) =
     key2id_loop (key2id(videoid \<mapsto> index)) (index + 1) rest"

definition id_loader ::
  "(string \<Rightarrow> string list option) \<Rightarrow> string
    \<Rightarrow> py_error + string list \<times> (string \<Rightarrow> nat option)" where
  "id_loader read_ids path =
     (case read_ids path of
        None \<Rightarrow> Inl FileNotFoundError
      | Some ids \<Rightarrow> Inr (map (drop 2) ids, key2id_loop Map.empty 0 (map (drop 2) ids)))"

subsection \<open>\<^verbatim>\<open>preprocess\<close>\<close>

text \<open>
  \<^verbatim>\<open>preprocess\<close> stores one dictionary object under several list indices, so the
  model has a store: a dictionary lives at an address of the heap, and the list \<open>data\<close>
  holds addresses (\<open>None\<close> for Python's \<^verbatim>\<open>None\<close>).  Assigning to a key changes the
  object at its address, for every index that refers to it.
\<close>

datatype pyval =
    VStr string
  | VNum pynum
  | VInt int
  | VRegions "int list list"
  | VCaptions "string list"

type_synonym pydict = "string \<Rightarrow> pyval option"

type_synonym heap = "pydict list"

type_synonym ref = nat

record meta_obj =
  video_id :: string
  framerate :: json_num
  num_frames :: int
  width :: int
  height :: int

text \<open>An object of the annotation file; the key \<^verbatim>\<open>'video_id'\<close> may be absent.\<close>

record pre_obj =
  pre_video_id :: "string option"
  pre_timestamps :: "json_num list list"
  pre_captions :: "string list"

text \<open>The five assignments \<^verbatim>\<open>tmp[key] = obj[key]\<close>.\<close>

definition fill_tmp :: "pydict \<Rightarrow> meta_obj \<Rightarrow> pydict" where
  "fill_tmp tmp obj =
     tmp(''video_id'' \<mapsto> VStr (video_id obj),
         ''framerate'' \<mapsto> VNum (json_number (framerate obj)),
         ''num_frames'' \<mapsto> VInt (num_frames obj),
         ''width'' \<mapsto> VInt (width obj),
         ''height'' \<mapsto> VInt (height obj))"

text \<open>The loop over \<open>metadata\<close>; \<open>tmp\<close> is the address of the one dictionary created
  before the loop.\<close>

fun metadata_loop ::
  "(string \<Rightarrow> nat option) \<Rightarrow> ref \<Rightarrow> meta_obj list \<Rightarrow> ref option list \<Rightarrow> heap
    \<Rightarrow> py_error + ref option list \<times> heap" where
  "metadata_loop key2idx tmp [] dat h = Inr (dat, h)"
| "metadata_loop key2idx tmp (obj # rest) dat h =
     (case key2idx (video_id obj) of
        None \<Rightarrow> Inl KeyError
      | Some idx \<Rightarrow>
          if idx < length dat
          then metadata_loop key2idx tmp rest (dat[idx := Some tmp]) (h[tmp := fill_tmp (h ! tmp) obj])
          else Inl IndexError)"

text \<open>\<^verbatim>\<open>[int(ts*fps) for ts in region]\<close>: the first exception leaves the comprehension.\<close>

fun region_frames :: "pynum \<Rightarrow> json_num list \<Rightarrow> py_error + int list" where
  "region_frames fps_of_video [] = Inr []"
| "region_frames fps_of_video (ts # region) =
     (case int_of_product (json_number ts) fps_of_video of
        Inl e \<Rightarrow> Inl e
      | Inr frame \<Rightarrow>
          (case region_frames fps_of_video region of
             Inl e \<Rightarrow> Inl e
           | Inr frames \<Rightarrow> Inr (frame # frames)))"

text \<open>The loop over the regions of one annotation object.\<close>

fun regions_loop ::
  "pynum \<Rightarrow> json_num list list \<Rightarrow> int list list \<Rightarrow> int \<Rightarrow> py_error + int list list \<times> int" where
  "regions_loop fps_of_video [] regs regcnt = Inr (regs, regcnt)"
| "regions_loop fps_of_video (region # rest) regs regcnt =
     (case region_frames fps_of_video region of
        Inl e \<Rightarrow> Inl e
      | Inr frames \<Rightarrow> regions_loop fps_of_video rest (regs @ [frames]) (regcnt + 1))"

text \<open>
  The loop over \<^verbatim>\<open>predata.items()\<close>.  Only the \<^verbatim>\<open>KeyError\<close> of
  \<^verbatim>\<open>key2idx[obj['video_id']]\<close> is caught.
\<close>

fun predata_loop ::
  "(string \<Rightarrow> nat option) \<Rightarrow> (string \<times> pre_obj) list \<Rightarrow> ref option list \<Rightarrow> heap
    \<Rightarrow> py_error + ref option list \<times> heap" where
  "predata_loop key2idx [] dat h = Inr (dat, h)"
| "predata_loop key2idx ((v_id, obj) # rest) dat h =
     (case (case pre_video_id obj of None \<Rightarrow> None | Some v \<Rightarrow> key2idx v) of
        None \<Rightarrow> predata_loop key2idx rest dat h
      | Some idx \<Rightarrow>
          if \<not> idx < length dat then Inl IndexError
          else (case dat ! idx of
                  None \<Rightarrow> Inl TypeError
                | Some a \<Rightarrow>
                    (case (h ! a) ''framerate'' of
                       None \<Rightarrow> Inl KeyError
                     | Some (VNum fps_of_video) \<Rightarrow>
                         (case regions_loop fps_of_video (pre_timestamps obj) [] 0 of
                            Inl e \<Rightarrow> Inl e
                          | Inr (regs, regcnt) \<Rightarrow>
                              predata_loop key2idx rest dat
                                (h[a := (h ! a)
                                    (''regions'' \<mapsto> VRegions regs,
                                     ''captions'' \<mapsto> VCaptions (pre_captions obj),
                                     ''segments'' \<mapsto> VInt regcnt)]))
                     | Some _ \<Rightarrow> Inl TypeError)))"

text \<open>\<^verbatim>\<open>data = [None] * vidnum\<close> and \<^verbatim>\<open>tmp = {}\<close>, a new object at the end of the heap,
  then the two loops.\<close>

definition preprocess ::
  "(string \<times> pre_obj) list \<Rightarrow> meta_obj list \<Rightarrow> nat \<Rightarrow> (string \<Rightarrow> nat option) \<Rightarrow> heap
    \<Rightarrow> py_error + ref option list \<times> heap" where
  "preprocess predata metadata vidnum key2idx h =
     (case metadata_loop key2idx (length h) metadata (replicate vidnum None) (h @ [Map.empty]) of
        Inl e \<Rightarrow> Inl e
      | Inr (dat, h') \<Rightarrow> predata_loop key2idx predata dat h')"

text \<open>Two videos in the metadata, with the indices 0 and 1.\<close>

definition meta_a :: meta_obj where
  "meta_a = \<lparr>video_id = ''a'', framerate = JInt 30, num_frames = 100, width = 320, height = 240\<rparr>"

definition meta_b :: meta_obj where
  "meta_b = \<lparr>video_id = ''b'', framerate = JInt 25, num_frames = 50, width = 640, height = 480\<rparr>"

definition key2idx_ab :: "string \<Rightarrow> nat option" where
  "key2idx_ab = [''a'' \<mapsto> 0, ''b'' \<mapsto> 1]"

subsection \<open>\<^verbatim>\<open>ActivityNetCaptions.__getitem__\<close>\<close>

text \<open>
  The names that are bound where \<^verbatim>\<open>__getitem__\<close> calls the loader: its parameters, the
  local variables assigned before the call, and the names the module binds (imports,
  functions, the class).  \<^verbatim>\<open>id\<close> is the local variable.  A name found in neither and not a
  builtin raises \<^verbatim>\<open>NameError\<close>; no builtin of Python is named \<^verbatim>\<open>path\<close>.
\<close>

datatype binding = Param | Local | Module | Function | Class

definition getitem_scope :: "(string \<times> binding) list" where
  "getitem_scope =
     [(''self'', Param), (''index'', Param),
      (''id'', Local), (''num_frames'', Local), (''frame_indices'', Local),
      (''sys'', Module), (''os'', Module), (''time'', Module), (''Image'', Class),
      (''functools'', Module), (''json'', Module), (''torch'', Module), (''nn'', Module),
      (''Dataset'', Class), (''DataLoader'', Class), (''transforms'', Module),
      (''video_loader'', Function), (''get_default_video_loader'', Function),
      (''get_default_image_loader'', Function), (''pil_loader'', Function),
      (''accimage_loader'', Function), (''id_loader'', Function), (''preprocess'', Function),
      (''ActivityNetCaptions'', Class)]"

definition lookup_name :: "string \<Rightarrow> py_error + binding" where
  "lookup_name n = (case map_of getitem_scope n of None \<Rightarrow> Inl NameError | Some b \<Rightarrow> Inr b)"

text \<open>
  The dataset object.  \<open>cap_loader\<close> is the call of \<^verbatim>\<open>self.loader\<close> on the object bound
  to its first argument and the frame indices.  The target is the dictionary of the
  video, or what the target transform makes of it.
\<close>

datatype 'tgt target = Record ref | Transformed 'tgt

record ('img, 'a, 'r, 'tgt) captions_dataset =
  cap_data :: "ref option list"
  cap_heap :: heap
  cap_spatial_transform :: "('r \<Rightarrow> 'img \<Rightarrow> ('img, 'a) frame) option"
  cap_temporal_transform :: "('r \<Rightarrow> int list \<Rightarrow> int list) option"
  cap_target_transform :: "(pydict \<Rightarrow> 'tgt) option"
  cap_loader :: "binding \<Rightarrow> int list \<Rightarrow> py_error + 'img list"

text \<open>The statements of \<^verbatim>\<open>__getitem__\<close> from the call of the loader on, for a bound first
  argument.\<close>

definition load_and_stack ::
  "('img, 'a, 'r, 'tgt) captions_dataset \<Rightarrow> ref \<Rightarrow> binding \<Rightarrow> int list \<Rightarrow> 'r
    \<Rightarrow> ('a tensor \<times> 'tgt target) outcome" where
  "load_and_stack ds a path frame_indices sseed =
     (case cap_loader ds path frame_indices of
        Inl e \<Rightarrow> Raised e
      | Inr loaded \<Rightarrow>
          (case torch_stack
                  (case cap_spatial_transform ds of
                     None \<Rightarrow> map PIL loaded
                   | Some st \<Rightarrow> map (st sseed) loaded) of
             Inl e \<Rightarrow> Raised e
           | Inr stacked \<Rightarrow>
               (case permute_1023 stacked of
                  Inl e \<Rightarrow> Raised e
                | Inr permuted \<Rightarrow>
                    Returned (permuted,
                      (case cap_target_transform ds of
                         None \<Rightarrow> Record a
                       | Some f \<Rightarrow> Transformed (f (cap_heap ds ! a)))))))"

definition getitem_captions ::
  "('img, 'a, 'r, 'tgt) captions_dataset \<Rightarrow> int \<Rightarrow> 'r \<Rightarrow> 'r \<Rightarrow> ('a tensor \<times> 'tgt target) outcome" where
  "getitem_captions ds index tseed sseed =
     (case py_index (cap_data ds) index of
        Inl e \<Rightarrow> Raised e
      | Inr None \<Rightarrow> Raised TypeError
      | Inr (Some a) \<Rightarrow>
          (case (cap_heap ds ! a) ''video_id'' of
             None \<Rightarrow> Raised KeyError
           | Some ident \<Rightarrow>
               (case (cap_heap ds ! a) ''num_frames'' of
                  None \<Rightarrow> Raised KeyError
                | Some (VInt n) \<Rightarrow>
                    (case lookup_name ''path'' of
                       Inl e \<Rightarrow> Raised e
                     | Inr path \<Rightarrow>
                         load_and_stack ds a path
                           (case cap_temporal_transform ds of
                              None \<Rightarrow> py_range 0 n
                            | Some tt \<Rightarrow> tt tseed (py_range 0 n))
                           sseed)
                | Some _ \<Rightarrow> Raised TypeError)))"

subsection \<open>Examples and invariants of the captions module\<close>

text \<open>A file of two ids.\<close>

definition example_ids :: "string \<Rightarrow> string list option" where
  "example_ids path =
     (if path = ''/data/train_ids.json'' then Some [''v_QOlSCBRmfWY'', ''v_ehGHCYKzyZ8''] else None)"

text \<open>
  What \<^verbatim>\<open>__getitem__\<close> reads from a dictionary, and the invariant of the two loops of
  \<^verbatim>\<open>preprocess\<close>: every entry of \<open>data\<close> that is not \<^verbatim>\<open>None\<close> is the address \<open>tmp\<close>,
  whose dictionary then has its metadata.
\<close>

definition has_meta :: "pydict \<Rightarrow> bool" where
  "has_meta d = ((\<exists>v. d ''video_id'' = Some (VStr v)) \<and> (\<exists>n. d ''num_frames'' = Some (VInt n)))"

definition all_tmp :: "ref \<Rightarrow> ref option list \<Rightarrow> heap \<Rightarrow> bool" where
  "all_tmp tmp dat h = (\<forall>i < length dat. \<forall>a. dat ! i = Some a \<longrightarrow> a = tmp \<and> has_meta (h ! tmp))"

text \<open>
  The dataset over the two videos of the metadata, as \<^verbatim>\<open>preprocess\<close> builds its data.
  \<^verbatim>\<open>self.loader\<close> is \<^verbatim>\<open>get_loader\<close> itself, a function of no argument: calling it with
  two arguments raises \<^verbatim>\<open>TypeError\<close>.
\<close>

definition example_captions :: "(string, nat, nat, nat) captions_dataset" where
  "example_captions =
     \<lparr>cap_data = fst (projr (preprocess [] [meta_a, meta_b] 2 key2idx_ab [])),
      cap_heap = snd (projr (preprocess [] [meta_a, meta_b] 2 key2idx_ab [])),
      cap_spatial_transform = None,
      cap_temporal_transform = None,
      cap_target_transform = None,
      cap_loader = (\<lambda>path frame_indices. Inl TypeError)\<rparr>"

text \<open>The same when the metadata names the video \<open>a\<close> twice: the index 1 stays
  \<^verbatim>\<open>None\<close>.\<close>

definition duplicate_captions :: "(string, nat, nat, nat) captions_dataset" where
  "duplicate_captions =
     \<lparr>cap_data = fst (projr (preprocess [] [meta_a, meta_a] 2 key2idx_ab [])),
      cap_heap = snd (projr (preprocess [] [meta_a, meta_a] 2 key2idx_ab [])),
      cap_spatial_transform = None,
      cap_temporal_transform = None,
      cap_target_transform = None,
      cap_loader = (\<lambda>path frame_indices. Inl TypeError)\<rparr>"

section \<open>Properties of the frame loaders\<close>

lemma video_loader_loop_prefix:
  "snd (video_loader_loop exists image_loader d frame_indices video) =
     video @ map (\<lambda>i. image_loader (image_path d i))
               (takeWhile (\<lambda>i. exists (image_path d i)) frame_indices)"
  by (induction frame_indices arbitrary: video) simp_all

lemma video_loader_captions_loop_prefix:
  "video_loader_captions_loop exists image_loader d frame_indices video =
     video @ map (\<lambda>i. image_loader (image_path_captions d i))
               (takeWhile (\<lambda>i. exists (image_path_captions d i)) frame_indices)"
  by (induction frame_indices arbitrary: video) simp_all

text \<open>
  Claim C4.  For every directory and every list of frame indices, each loader returns the
  decoded images of the longest prefix of the index list whose frame files all exist, in
  the order of the list: it stops at the first missing file.  The loaders have no error
  result: no branch of them raises.  In particular, on the indices \<open>[1, 2, 3]\<close> with the
  files of frames 1 and 2 present and the file of frame 3 absent, the result is exactly
  the decoded images of frames 1 and 2, in that order.
\<close>

theorem video_loader_longest_existing_prefix:
  "snd (video_loader exists d frame_indices image_loader) =
     map (\<lambda>i. image_loader (image_path d i))
       (takeWhile (\<lambda>i. exists (image_path d i)) frame_indices)
   \<and> video_loader_captions exists d frame_indices image_loader =
     map (\<lambda>i. image_loader (image_path_captions d i))
       (takeWhile (\<lambda>i. exists (image_path_captions d i)) frame_indices)
   \<and> (exists (image_path d 1) \<and> exists (image_path d 2) \<and> \<not> exists (image_path d 3) \<longrightarrow>
        snd (video_loader exists d [1, 2, 3] image_loader) =
          [image_loader (image_path d 1), image_loader (image_path d 2)])
   \<and> (exists (image_path_captions d 1) \<and> exists (image_path_captions d 2)
        \<and> \<not> exists (image_path_captions d 3) \<longrightarrow>
        video_loader_captions exists d [1, 2, 3] image_loader =
          [image_loader (image_path_captions d 1), image_loader (image_path_captions d 2)])"
  by (simp add: video_loader_def video_loader_captions_def video_loader_loop_prefix
        video_loader_captions_loop_prefix)

theorem video_loader_longest_existing_prefix_witness:
  "(\<lambda>p. p \<in> set [''/frames/v1/image_00001.jpg'', ''/frames/v1/image_00002.jpg'',
                   ''/frames/v1/000001.jpg'', ''/frames/v1/000002.jpg''])
      (image_path ''/frames/v1'' 1)
   \<and> image_path ''/frames/v1'' 3 = ''/frames/v1/image_00003.jpg''
   \<and> snd (video_loader
        (\<lambda>p. p \<in> set [''/frames/v1/image_00001.jpg'', ''/frames/v1/image_00002.jpg'',
                   ''/frames/v1/000001.jpg'', ''/frames/v1/000002.jpg''])
        ''/frames/v1'' [1, 2, 3] (\<lambda>p. ''decoded '' @ p)) =
       [''decoded /frames/v1/image_00001.jpg'', ''decoded /frames/v1/image_00002.jpg'']
   \<and> video_loader_captions
        (\<lambda>p. p \<in> set [''/frames/v1/image_00001.jpg'', ''/frames/v1/image_00002.jpg'',
                   ''/frames/v1/000001.jpg'', ''/frames/v1/000002.jpg''])
        ''/frames/v1'' [1, 2, 3] (\<lambda>p. ''decoded '' @ p) =
       [''decoded /frames/v1/000001.jpg'', ''decoded /frames/v1/000002.jpg'']"
proof -
  let ?ex = "\<lambda>p. p \<in> set [''/frames/v1/image_00001.jpg'', ''/frames/v1/image_00002.jpg'',
                   ''/frames/v1/000001.jpg'', ''/frames/v1/000002.jpg'']"
  have p1: "image_path ''/frames/v1'' 1 = ''/frames/v1/image_00001.jpg''" by code_simp
  have p2: "image_path ''/frames/v1'' 2 = ''/frames/v1/image_00002.jpg''" by code_simp
  have p3: "image_path ''/frames/v1'' 3 = ''/frames/v1/image_00003.jpg''" by code_simp
  have q1: "image_path_captions ''/frames/v1'' 1 = ''/frames/v1/000001.jpg''" by code_simp
  have q2: "image_path_captions ''/frames/v1'' 2 = ''/frames/v1/000002.jpg''" by code_simp
  have q3: "image_path_captions ''/frames/v1'' 3 = ''/frames/v1/000003.jpg''" by code_simp
  show ?thesis
    using video_loader_longest_existing_prefix
      [of ?ex "''/frames/v1''" "[1, 2, 3]" "\<lambda>p. ''decoded '' @ p"]
    by (simp add: p1 p2 p3 q1 q2 q3)
qed

section \<open>Properties of \<^verbatim>\<open>ActivityNetCaptions_Train.__getitem__\<close>\<close>

subsection \<open>The candidate lists\<close>

lemma candidates_loop_closed:
  "candidates_loop n num zs c =
     (let kept = filter (\<lambda>z. fst (snd z) < snd (snd z))
                   (if num \<le> n then take (nat (n - num)) zs else zs)
      in \<lparr>c_sentences = c_sentences c @ map fst kept,
          c_timestamps = c_timestamps c @ map snd kept,
          c_fidlist = c_fidlist c @ map (\<lambda>z. py_range (fst (snd z)) (snd (snd z))) kept\<rparr>)"
proof (induction zs arbitrary: num c)
  case Nil
  then show ?case by simp
next
  case (Cons z zs)
  obtain s t where z: "z = (s, t)" by (cases z)
  show ?case
  proof (cases "num = n")
    case True
    then show ?thesis by (simp add: z)
  next
    case False
    then have "num < n \<or> n < num" by arith
    then show ?thesis
    proof
      assume lt: "num < n"
      then have "nat (n - num) = Suc (nat (n - (num + 1)))" by arith
      with lt False show ?thesis by (simp add: z Cons.IH Let_def)
    next
      assume "n < num"
      with False show ?thesis by (simp add: z Cons.IH Let_def)
    qed
  qed
qed

lemma candidates_loop_none:
  "\<forall>z \<in> set zs. snd (snd z) \<le> fst (snd z) \<Longrightarrow> candidates_loop n num zs c = c"
  by (induction zs arbitrary: num) auto

lemma build_candidates_all_invalid:
  "\<forall>t \<in> set (timestamps r). snd t \<le> fst t \<Longrightarrow>
     build_candidates n r = \<lparr>c_sentences = [], c_timestamps = [], c_fidlist = []\<rparr>"
proof -
  assume a: "\<forall>t \<in> set (timestamps r). snd t \<le> fst t"
  have "\<forall>z \<in> set (zip (sentences r) (timestamps r)). snd (snd z) \<le> fst (snd z)"
  proof
    fix z assume "z \<in> set (zip (sentences r) (timestamps r))"
    then have "snd z \<in> set (timestamps r)" by (metis prod.collapse set_zip_rightD)
    with a show "snd (snd z) \<le> fst (snd z)" by blast
  qed
  then show ?thesis unfolding build_candidates_def by (rule candidates_loop_none)
qed

text \<open>
  Claim C3 does not hold as stated.  The loop counts every segment of the annotation,
  also one with no frames, and leaves at position \<open>n\<close>: the candidates are cut from the
  annotation first and filtered afterwards.  With one position and the segments
  \<open>(5, 5), (1, 3)\<close> the source keeps nothing (and the access then raises), where the
  segments whose start frame is below their end frame, truncated to the first one, are
  the second segment.
\<close>

theorem candidates_not_filter_then_truncate:
  "build_candidates 1 two_segments = \<lparr>c_sentences = [], c_timestamps = [], c_fidlist = []\<rparr>
   \<and> candidates_filter_then_truncate 1 two_segments =
       \<lparr>c_sentences = [''b''], c_timestamps = [(1, 3)], c_fidlist = [[1, 2]]\<rparr>
   \<and> build_candidates 1 two_segments \<noteq> candidates_filter_then_truncate 1 two_segments"
proof -
  have b: "build_candidates 1 two_segments =
      \<lparr>c_sentences = [], c_timestamps = [], c_fidlist = []\<rparr>"
    by code_simp
  have f: "candidates_filter_then_truncate 1 two_segments =
       \<lparr>c_sentences = [''b''], c_timestamps = [(1, 3)], c_fidlist = [[1, 2]]\<rparr>"
    by code_simp
  from b f show ?thesis by simp
qed

text \<open>
  Claim C3, amended.  On each access the three candidate lists are built from the first
  \<open>n_samples_for_each_video\<close> segments of the video in annotation order, whether they
  have frames or not (from all segments when \<open>n\<close> is negative: the loop leaves at
  position \<open>n\<close>, which is then never reached), and of these from exactly the segments
  whose start frame is strictly less than their end frame.  The sentences, the timestamps
  and the frame-index ranges are the same segments in the same order, and the range of a
  segment is the integers from its start frame (inclusive) to its end frame (exclusive).
\<close>

theorem build_candidates_first_n_valid_segments:
  "build_candidates n r =
     (let kept = filter (\<lambda>z. fst (snd z) < snd (snd z))
                   (if 0 \<le> n then take (nat n) (zip (sentences r) (timestamps r))
                    else zip (sentences r) (timestamps r))
      in \<lparr>c_sentences = map fst kept,
          c_timestamps = map snd kept,
          c_fidlist = map (\<lambda>z. [fst (snd z)..snd (snd z) - 1]) kept\<rparr>)"
  by (simp add: build_candidates_def candidates_loop_closed py_range_def Let_def)

theorem build_candidates_first_n_valid_segments_witness:
  "build_candidates 2 three_segments =
     \<lparr>c_sentences = [''b''], c_timestamps = [(1, 3)], c_fidlist = [[1, 2]]\<rparr>
   \<and> build_candidates (- 1) three_segments =
     \<lparr>c_sentences = [''b'', ''c''], c_timestamps = [(1, 3), (2, 4)],
      c_fidlist = [[1, 2], [2, 3]]\<rparr>"
proof -
  have u: "[1..3 - 1] = [1, 2::int]" "[2..4 - 1] = [2, 3::int]" by code_simp+
  have two: "build_candidates 2 three_segments =
     \<lparr>c_sentences = [''b''], c_timestamps = [(1, 3)], c_fidlist = [[1, 2]]\<rparr>"
    using build_candidates_first_n_valid_segments [of 2 three_segments] u
    by (simp add: three_segments_def)
  have all: "build_candidates (- 1) three_segments =
     \<lparr>c_sentences = [''b'', ''c''], c_timestamps = [(1, 3), (2, 4)],
      c_fidlist = [[1, 2], [2, 3]]\<rparr>"
    using build_candidates_first_n_valid_segments [of "- 1" three_segments] u
    by (simp add: three_segments_def)
  from two all show ?thesis by simp
qed

subsection \<open>No candidate\<close>

text \<open>
  Claim C2.  If every segment of the video at a valid index has a start frame that is not
  below its end frame, the candidate lists are empty and the access raises the
  \<^verbatim>\<open>ValueError\<close> of the random draw, whatever the random generators would deliver:
  nothing is printed, no round of the loop is retried, and the loop is not left running.
\<close>

theorem getitem_no_valid_segment_raises:
  "py_index (data ds) index = Inr r \<Longrightarrow> \<forall>t \<in> set (timestamps r). snd t \<le> fst t \<Longrightarrow>
     c_sentences (build_candidates (n_actions ds) r) = []
     \<and> getitem ds index draws = ([], Raised ValueError)"
  by (cases draws) (simp_all add: getitem_def build_candidates_all_invalid)

theorem getitem_no_valid_segment_raises_witness:
  "py_index (data (example_dataset\<lparr>data := [empty_segments]\<rparr>)) 0 = Inr empty_segments
   \<and> snd (5, 5 :: int) \<le> fst (5, 5 :: int) \<and> snd (9, 3 :: int) \<le> fst (9, 3 :: int)
   \<and> c_sentences (build_candidates (n_actions (example_dataset\<lparr>data := [empty_segments]\<rparr>))
        empty_segments) = []
   \<and> getitem (example_dataset\<lparr>data := [empty_segments]\<rparr>) 0 [second_segment, first_segment] =
       ([], Raised ValueError)"
proof -
  have h1: "py_index (data (example_dataset\<lparr>data := [empty_segments]\<rparr>)) 0 = Inr empty_segments"
    by (simp add: py_index_def)
  have h2: "\<forall>t \<in> set (timestamps empty_segments). snd t \<le> fst t"
    by (simp add: empty_segments_def)
  show ?thesis
    using getitem_no_valid_segment_raises [OF h1 h2, of "[second_segment, first_segment]"] h1
    by simp
qed

subsection \<open>The retry loop\<close>

lemma retry_loop_returned:
  "retry_loop ds r c draws = (out, Returned s) \<Longrightarrow> size1 (clip s) = sample_duration ds"
proof (induction draws arbitrary: out)
  case Nil
  then show ?case by (simp split: if_splits)
next
  case (Cons d draws)
  show ?case
  proof (cases "int (length (c_sentences c)) \<le> 0")
    case True
    with Cons.prems show ?thesis by simp
  next
    case False
    obtain printed fi res where a: "attempt ds r c d = (printed, fi, res)"
      by (cases "attempt ds r c d") auto
    show ?thesis
    proof (cases res)
      case (Inl e)
      with Cons.prems False a have "snd (retry_loop ds r c draws) = Returned s" by simp
      then have "retry_loop ds r c draws = (fst (retry_loop ds r c draws), Returned s)"
        by (metis prod.collapse)
      then show ?thesis by (rule Cons.IH)
    next
      case (Inr s')
      with Cons.prems False a have s: "s' = s" by simp
      from a Inr s show ?thesis
        by (auto simp: attempt_def Let_def stack_and_check_def split: sum.splits if_splits)
    qed
  qed
qed

text \<open>
  Claim C1.  Whenever an access returns a sample, the size of the clip along dimension 1
  (after stacking and permuting) is the configured \<open>sample_duration\<close>.  At a valid index
  with a candidate, a round whose stacking, permuting or size check fails is not
  returned: the failure is printed with the video id and the frame indices, and the
  access goes on with the next draw of the random generators.
\<close>

theorem getitem_returns_sample_duration:
  "(getitem ds index draws = (out, Returned s) \<longrightarrow> size1 (clip s) = sample_duration ds)
   \<and> (py_index (data ds) index = Inr r
        \<and> c_sentences (build_candidates (n_actions ds) r) \<noteq> []
        \<and> attempt ds r (build_candidates (n_actions ds) r) d = (printed, frame_indices, Inl e) \<longrightarrow>
      getitem ds index (d # draws) =
        (printed @ [StackFailed, PrintId (id' r), PrintIndices frame_indices]
           @ fst (getitem ds index draws),
         snd (getitem ds index draws)))"
proof (intro conjI impI)
  assume "getitem ds index draws = (out, Returned s)"
  then show "size1 (clip s) = sample_duration ds"
    by (auto simp: getitem_def split: sum.splits dest: retry_loop_returned)
next
  assume "py_index (data ds) index = Inr r
        \<and> c_sentences (build_candidates (n_actions ds) r) \<noteq> []
        \<and> attempt ds r (build_candidates (n_actions ds) r) d = (printed, frame_indices, Inl e)"
  then show "getitem ds index (d # draws) =
        (printed @ [StackFailed, PrintId (id' r), PrintIndices frame_indices]
           @ fst (getitem ds index draws),
         snd (getitem ds index draws))"
    by (simp add: getitem_def)
qed

theorem getitem_returns_sample_duration_witness:
  "getitem example_dataset 0 [second_segment, first_segment] =
     ([DoesNotExist ''/frames/v_a/image_00005.jpg'', StackFailed, PrintId ''v_a'',
       PrintIndices [5, 6]],
      Returned example_sample)
   \<and> size1 (clip example_sample) = sample_duration example_dataset
   \<and> py_index (data example_dataset) 0 = Inr example_record
   \<and> c_sentences (build_candidates (n_actions example_dataset) example_record) \<noteq> []
   \<and> attempt example_dataset example_record
        (build_candidates (n_actions example_dataset) example_record) second_segment =
       ([DoesNotExist ''/frames/v_a/image_00005.jpg''], [5, 6], Inl RuntimeError)
   \<and> getitem example_dataset 0 [first_segment] = ([], Returned example_sample)"
proof -
  have g: "getitem example_dataset 0 [second_segment, first_segment] =
     ([DoesNotExist ''/frames/v_a/image_00005.jpg'', StackFailed, PrintId ''v_a'',
       PrintIndices [5, 6]],
      Returned example_sample)"
    by code_simp
  have i: "py_index (data example_dataset) 0 = Inr example_record"
    by code_simp
  have c: "c_sentences (build_candidates (n_actions example_dataset) example_record) \<noteq> []"
    by code_simp
  have a: "attempt example_dataset example_record
        (build_candidates (n_actions example_dataset) example_record) second_segment =
       ([DoesNotExist ''/frames/v_a/image_00005.jpg''], [5, 6], Inl RuntimeError)"
    by code_simp
  have f: "getitem example_dataset 0 [first_segment] = ([], Returned example_sample)"
    by code_simp
  note t = getitem_returns_sample_duration
    [of example_dataset 0 "[second_segment, first_segment]" _ example_sample]
  from t g have "size1 (clip example_sample) = sample_duration example_dataset"
    by blast
  with g i c a f show ?thesis by simp
qed

section \<open>Properties of \<^verbatim>\<open>ActivityNetCaptions_Train.__init__\<close>\<close>




text \<open>
  The product is the machine product: \<open>4.10 * 30.0\<close> is just below 123 and
  \<open>1.16 * 25\<close> just below 29, so the frames are 122 and 28.
\<close>

lemma convert_timestamps_rounds_products:
  "convert_timestamps (json_number (JReal 30)) 1000 [(JReal (41 / 10), JReal (82 / 10))] [] =
     Inr [(122, 245)]
   \<and> convert_timestamps (json_number (JInt 25)) 1000 [(JReal (115 / 100), JReal (116 / 100))] [] =
     Inr [(28, 28)]"
  by code_simp



section \<open>Properties of the training script\<close>

text \<open>
  Claim C6.  With a start epoch offset above 0: if both checkpoint files of that offset
  exist, the resume block loads the encoder file into the encoder and the decoder file
  into the decoder and keeps the offset; if either is missing, it resets the offset to 0,
  prints the notice and leaves both sub-models as constructed, and with at least one epoch
  configured the training loop then starts at epoch 0.  A sub-model is loaded if and only
  if both files exist.  The resume block has no error result.
\<close>

theorem resume_loads_iff_both_exist:
  "0 < start_from_ep a \<Longrightarrow>
     (files (enc_model_path a (start_from_ep a)) = Some enc
        \<and> files (dec_model_path a (start_from_ep a)) = Some dec \<longrightarrow>
        resume a files =
          (start_from_ep a, \<lparr>video_encoder = Loaded enc, caption_gen = Loaded dec\<rparr>,
           [''restarting training from epoch '' @ str_int (start_from_ep a)]))
     \<and> (files (enc_model_path a (start_from_ep a)) = None
          \<or> files (dec_model_path a (start_from_ep a)) = None \<longrightarrow>
        resume a files =
          (0, \<lparr>video_encoder = Fresh, caption_gen = Fresh\<rparr>,
           [''didn't find file, starting encoder from scratch''])
        \<and> (0 < max_epochs a \<longrightarrow>
             main a files =
               ([''didn't find file, starting encoder from scratch'', ''start training''],
                Inr ([0..max_epochs a - 1], \<lparr>video_encoder = Fresh, caption_gen = Fresh\<rparr>))))
     \<and> ((video_encoder (fst (snd (resume a files))) \<noteq> Fresh
           \<or> caption_gen (fst (snd (resume a files))) \<noteq> Fresh)
          = (files (enc_model_path a (start_from_ep a)) \<noteq> None
             \<and> files (dec_model_path a (start_from_ep a)) \<noteq> None))"
  by (auto simp: resume_def main_def split: option.splits)

theorem resume_loads_iff_both_exist_witness:
  "0 < start_from_ep (default_args\<lparr>start_from_ep := 5\<rparr>)
   \<and> epoch3_only (enc_model_path (default_args\<lparr>start_from_ep := 5\<rparr>) 5) = None
   \<and> 0 < max_epochs (default_args\<lparr>start_from_ep := 5\<rparr>)
   \<and> main (default_args\<lparr>start_from_ep := 5\<rparr>) epoch3_only =
       ([''didn't find file, starting encoder from scratch'', ''start training''],
        Inr ([0, 1, 2, 3, 4, 5, 6, 7, 8, 9, 10, 11, 12, 13, 14, 15, 16, 17, 18, 19],
             \<lparr>video_encoder = Fresh, caption_gen = Fresh\<rparr>))
   \<and> resume (default_args\<lparr>start_from_ep := 3\<rparr>) epoch3_only =
       (3, \<lparr>video_encoder = Loaded 30, caption_gen = Loaded 31\<rparr>,
        [''restarting training from epoch 3''])"
proof -
  let ?a = "default_args\<lparr>start_from_ep := 5\<rparr>"
  let ?b = "default_args\<lparr>start_from_ep := 3\<rparr>"
  have s: "0 < start_from_ep ?a" "start_from_ep ?a = 5" "0 < max_epochs ?a" "max_epochs ?a = 20"
    by (simp_all add: default_args_def)
  have e: "epoch3_only (enc_model_path ?a 5) = None" by code_simp
  have u: "[0..20 - 1] = [0, 1, 2, 3, 4, 5, 6, 7, 8, 9, 10, 11, 12, 13, 14, 15, 16, 17, 18, 19 :: int]"
    by code_simp
  have sb: "0 < start_from_ep ?b" "start_from_ep ?b = 3" by (simp_all add: default_args_def)
  have e3: "epoch3_only (enc_model_path ?b 3) = Some 30" by code_simp
  have d3: "epoch3_only (dec_model_path ?b 3) = Some 31" by code_simp
  have n3: "str_int 3 = ''3''" by code_simp
  from resume_loads_iff_both_exist [OF s(1), of epoch3_only] s e u
  have m: "main ?a epoch3_only =
       ([''didn't find file, starting encoder from scratch'', ''start training''],
        Inr ([0, 1, 2, 3, 4, 5, 6, 7, 8, 9, 10, 11, 12, 13, 14, 15, 16, 17, 18, 19],
             \<lparr>video_encoder = Fresh, caption_gen = Fresh\<rparr>))"
    by simp
  from resume_loads_iff_both_exist [OF sb(1), of epoch3_only 30 31] sb e3 d3 n3
  have r: "resume ?b epoch3_only =
       (3, \<lparr>video_encoder = Loaded 30, caption_gen = Loaded 31\<rparr>,
        [''restarting training from epoch 3''])"
    by simp
  from s e m r show ?thesis by simp
qed

text \<open>
  Claim C7 does not hold as stated: the assertion compares \<open>max_epochs\<close> with the offset
  after the resume block.  With the default 20 epochs, the offset 25 and no checkpoint of
  epoch 25 on disk, the offset falls back to 0 and training starts at epoch 0.
\<close>

theorem main_starts_when_checkpoint_missing:
  "max_epochs (default_args\<lparr>start_from_ep := 25\<rparr>) \<le> start_from_ep (default_args\<lparr>start_from_ep := 25\<rparr>)
   \<and> main (default_args\<lparr>start_from_ep := 25\<rparr>) epoch3_only =
       ([''didn't find file, starting encoder from scratch'', ''start training''],
        Inr ([0, 1, 2, 3, 4, 5, 6, 7, 8, 9, 10, 11, 12, 13, 14, 15, 16, 17, 18, 19],
             \<lparr>video_encoder = Fresh, caption_gen = Fresh\<rparr>))"
  by code_simp

text \<open>
  Claim C7, amended.  When \<open>max_epochs \<le> start_offset\<close>, the script fails its assertion,
  before the line \<^verbatim>\<open>start training\<close> and before any epoch, exactly when the offset
  survives the resume block (it is 0, or both checkpoint files of the offset exist) or
  \<open>max_epochs \<le> 0\<close>.  Otherwise a checkpoint file is missing: the offset is reset to 0
  and the loop runs the epochs from 0 up to \<open>max_epochs\<close>.
\<close>

theorem main_refuses_iff_offset_survives:
  "max_epochs a \<le> start_from_ep a \<Longrightarrow>
     (snd (main a files) = Inl AssertionError) =
       (start_from_ep a = 0
        \<or> (files (enc_model_path a (start_from_ep a)) \<noteq> None
            \<and> files (dec_model_path a (start_from_ep a)) \<noteq> None)
        \<or> max_epochs a \<le> 0)
     \<and> (snd (main a files) = Inl AssertionError \<longrightarrow> ''start training'' \<notin> set (fst (main a files)))
     \<and> (snd (main a files) \<noteq> Inl AssertionError \<longrightarrow>
          main a files =
            ([''didn't find file, starting encoder from scratch'', ''start training''],
             Inr ([0..max_epochs a - 1], \<lparr>video_encoder = Fresh, caption_gen = Fresh\<rparr>)))"
  by (auto simp: resume_def main_def split: option.splits)

theorem main_refuses_iff_offset_survives_witness:
  "max_epochs (default_args\<lparr>start_from_ep := 3, max_epochs := 2\<rparr>)
     \<le> start_from_ep (default_args\<lparr>start_from_ep := 3, max_epochs := 2\<rparr>)
   \<and> epoch3_only (enc_model_path (default_args\<lparr>start_from_ep := 3, max_epochs := 2\<rparr>) 3) = Some 30
   \<and> epoch3_only (dec_model_path (default_args\<lparr>start_from_ep := 3, max_epochs := 2\<rparr>) 3) = Some 31
   \<and> main (default_args\<lparr>start_from_ep := 3, max_epochs := 2\<rparr>) epoch3_only =
       ([''restarting training from epoch 3''], Inl AssertionError)
   \<and> ''start training''
       \<notin> set (fst (main (default_args\<lparr>start_from_ep := 3, max_epochs := 2\<rparr>) epoch3_only))"
proof -
  let ?a = "default_args\<lparr>start_from_ep := 3, max_epochs := 2\<rparr>"
  have le: "max_epochs ?a \<le> start_from_ep ?a" by (simp add: default_args_def)
  have s: "start_from_ep ?a = 3" by (simp add: default_args_def)
  have e: "epoch3_only (enc_model_path ?a 3) = Some 30" by code_simp
  have d: "epoch3_only (dec_model_path ?a 3) = Some 31" by code_simp
  have f: "fst (main ?a epoch3_only) = [''restarting training from epoch 3'']" by code_simp
  from main_refuses_iff_offset_survives [OF le, of epoch3_only] s e d
  have r: "snd (main ?a epoch3_only) = Inl AssertionError"
    and n: "''start training'' \<notin> set (fst (main ?a epoch3_only))"
    by simp_all
  from f r have "main ?a epoch3_only = ([''restarting training from epoch 3''], Inl AssertionError)"
    by (metis prod.collapse)
  with le e d n show ?thesis by simp
qed

section \<open>Properties of \<^verbatim>\<open>activitynet_captions.py\<close>\<close>

subsection \<open>\<^verbatim>\<open>id_loader\<close>\<close>

lemma key2id_loop_other:
  "x \<notin> set xs \<Longrightarrow> key2id_loop m k xs x = m x"
  by (induction xs arbitrary: m k) auto

lemma key2id_loop_distinct:
  "distinct xs \<Longrightarrow> i < length xs \<Longrightarrow> key2id_loop m k xs (xs ! i) = Some (k + i)"
proof (induction xs arbitrary: m k i)
  case Nil
  then show ?case by simp
next
  case (Cons x xs)
  show ?case
  proof (cases i)
    case 0
    with Cons.prems show ?thesis by (simp add: key2id_loop_other)
  next
    case (Suc j)
    with Cons.prems have "key2id_loop (m(x \<mapsto> k)) (k + 1) xs (xs ! j) = Some (k + 1 + j)"
      by (intro Cons.IH) auto
    with Suc show ?thesis by simp
  qed
qed

text \<open>
  Claim C10.  When the ids of the file, without their first two characters, are pairwise
  distinct, the list \<open>id2key\<close> holds at every position the id of that position without
  its first two characters, and the dictionary \<open>key2id\<close> maps it back to the position.
\<close>

theorem id_loader_left_inverse:
  "id_loader read_ids path = Inr (id2key, key2id) \<Longrightarrow> read_ids path = Some ids \<Longrightarrow>
   distinct (map (drop 2) ids) \<Longrightarrow> i < length ids \<Longrightarrow>
     length id2key = length ids \<and> id2key ! i = drop 2 (ids ! i) \<and> key2id (id2key ! i) = Some i"
  using key2id_loop_distinct [of "map (drop 2) ids" i Map.empty 0]
  by (auto simp: id_loader_def)

theorem id_loader_left_inverse_witness:
  "fst (projr (id_loader example_ids ''/data/train_ids.json'')) = [''QOlSCBRmfWY'', ''ehGHCYKzyZ8'']
   \<and> example_ids ''/data/train_ids.json'' = Some [''v_QOlSCBRmfWY'', ''v_ehGHCYKzyZ8'']
   \<and> distinct (map (drop 2) [''v_QOlSCBRmfWY'', ''v_ehGHCYKzyZ8''])
   \<and> (1 :: nat) < length [''v_QOlSCBRmfWY'', ''v_ehGHCYKzyZ8'']
   \<and> snd (projr (id_loader example_ids ''/data/train_ids.json'')) ''ehGHCYKzyZ8'' = Some 1"
proof -
  let ?ids = "[''v_QOlSCBRmfWY'', ''v_ehGHCYKzyZ8'']"
  let ?r = "projr (id_loader example_ids ''/data/train_ids.json'')"
  have r: "example_ids ''/data/train_ids.json'' = Some ?ids" by (simp add: example_ids_def)
  have l: "id_loader example_ids ''/data/train_ids.json'' = Inr (fst ?r, snd ?r)"
    by (simp add: id_loader_def r)
  have d: "distinct (map (drop 2) ?ids)" by simp
  have i: "(1 :: nat) < length ?ids" by simp
  have f: "fst ?r = [''QOlSCBRmfWY'', ''ehGHCYKzyZ8'']" by (simp add: id_loader_def r)
  from id_loader_left_inverse [OF l r d i] f have "snd ?r ''ehGHCYKzyZ8'' = Some 1" by simp
  with r d i f show ?thesis by simp
qed

subsection \<open>\<^verbatim>\<open>preprocess\<close>\<close>

lemma has_meta_fill: "has_meta (fill_tmp d obj)"
  by (simp add: has_meta_def fill_tmp_def)

lemma metadata_loop_all_tmp:
  "metadata_loop key2idx tmp ms dat h = Inr (dat', h') \<Longrightarrow> tmp < length h \<Longrightarrow>
     all_tmp tmp dat h \<Longrightarrow> all_tmp tmp dat' h' \<and> length h' = length h \<and> length dat' = length dat"
proof (induction ms arbitrary: dat h)
  case Nil
  then show ?case by simp
next
  case (Cons obj ms)
  from Cons.prems(1) obtain idx where
    idx: "key2idx (video_id obj) = Some idx" "idx < length dat" and
    rest: "metadata_loop key2idx tmp ms (dat[idx := Some tmp]) (h[tmp := fill_tmp (h ! tmp) obj])
             = Inr (dat', h')"
    by (auto split: option.splits if_splits)
  have "all_tmp tmp (dat[idx := Some tmp]) (h[tmp := fill_tmp (h ! tmp) obj])"
    using Cons.prems(2,3) idx(2) by (auto simp: all_tmp_def nth_list_update has_meta_fill)
  with Cons.IH [OF rest] Cons.prems(2) show ?case by simp
qed

lemma predata_loop_all_tmp:
  "predata_loop key2idx ps dat h = Inr (dat', h') \<Longrightarrow> tmp < length h \<Longrightarrow>
     all_tmp tmp dat h \<Longrightarrow> all_tmp tmp dat' h' \<and> dat' = dat"
proof (induction ps arbitrary: h)
  case Nil
  then show ?case by simp
next
  case (Cons p ps)
  obtain v_id obj where p: "p = (v_id, obj)" by (cases p)
  show ?case
  proof (cases "case pre_video_id obj of None \<Rightarrow> None | Some v \<Rightarrow> key2idx v")
    case None
    with Cons.prems(1) p have "predata_loop key2idx ps dat h = Inr (dat', h')" by simp
    from Cons.IH [OF this Cons.prems(2,3)] show ?thesis .
  next
    case (Some idx)
    with Cons.prems(1) p obtain a regs regcnt where
      idx: "idx < length dat" "dat ! idx = Some a" and
      rest: "predata_loop key2idx ps dat
               (h[a := (h ! a)
                   (''regions'' \<mapsto> VRegions regs,
                    ''captions'' \<mapsto> VCaptions (pre_captions obj),
                    ''segments'' \<mapsto> VInt regcnt)])
             = Inr (dat', h')"
      by (auto split: option.splits if_splits pyval.splits sum.splits)
    from idx Cons.prems(3) have a: "a = tmp" by (auto simp: all_tmp_def)
    have "all_tmp tmp dat
               (h[a := (h ! a)
                   (''regions'' \<mapsto> VRegions regs,
                    ''captions'' \<mapsto> VCaptions (pre_captions obj),
                    ''segments'' \<mapsto> VInt regcnt)])"
      using Cons.prems(2,3) a by (auto simp: all_tmp_def has_meta_def)
    with Cons.IH [OF rest] Cons.prems(2) show ?thesis by auto
  qed
qed

lemma preprocess_all_tmp:
  "preprocess predata metadata vidnum key2idx h = Inr (dat, h') \<Longrightarrow>
     all_tmp (length h) dat h' \<and> length dat = vidnum"
proof -
  assume "preprocess predata metadata vidnum key2idx h = Inr (dat, h')"
  then obtain dat0 h0 where
    m: "metadata_loop key2idx (length h) metadata (replicate vidnum None) (h @ [Map.empty])
          = Inr (dat0, h0)" and
    p: "predata_loop key2idx predata dat0 h0 = Inr (dat, h')"
    by (auto simp: preprocess_def split: sum.splits)
  have "all_tmp (length h) (replicate vidnum None) (h @ [Map.empty])"
    by (simp add: all_tmp_def)
  with metadata_loop_all_tmp [OF m] have
    i: "all_tmp (length h) dat0 h0" "length h0 = length h + 1" "length dat0 = vidnum"
    by simp_all
  with predata_loop_all_tmp [OF p, of "length h"] show ?thesis by auto
qed

lemma preprocess_one_address:
  "preprocess predata metadata vidnum key2idx h = Inr (dat, h') \<Longrightarrow>
     i < length dat \<Longrightarrow> dat ! i = Some a \<Longrightarrow> a = length h"
  using preprocess_all_tmp [of predata metadata vidnum key2idx h dat h']
  by (auto simp: all_tmp_def)

text \<open>
  Claim C8 fails on the code.  The dictionary \<open>tmp\<close> is created once, before the loop,
  and every index is given the same object.  On the metadata of the two videos \<open>a\<close> and
  \<open>b\<close>, both indices hold the address 0 and the one dictionary has the values of \<open>b\<close>:
  the record at the index of \<open>a\<close> is not the entry of \<open>a\<close>.
\<close>

theorem preprocess_shares_one_dict:
  "(case preprocess [] [meta_a, meta_b] 2 key2idx_ab [] of
      Inl e \<Rightarrow> False
    | Inr (dat, h) \<Rightarrow>
        dat = [Some 0, Some 0] \<and> length h = 1
        \<and> map (h ! 0) [''video_id'', ''framerate'', ''num_frames'', ''width'', ''height''] =
            [Some (VStr ''b''), Some (VNum (PyInt 25)), Some (VInt 50), Some (VInt 640), Some (VInt 480)])"
  by code_simp

subsection \<open>\<^verbatim>\<open>ActivityNetCaptions.__getitem__\<close>\<close>

lemma getitem_captions_never_returns:
  "getitem_captions ds index tseed sseed \<noteq> Returned x"
  by (simp add: getitem_captions_def lookup_name_def getitem_scope_def
        split: sum.splits option.splits pyval.splits)

lemma lookup_name_path: "lookup_name ''path'' = Inl NameError"
  by (simp add: lookup_name_def getitem_scope_def)

lemma py_index_nth:
  "py_index xs i = Inr x \<Longrightarrow> \<exists>j < length xs. xs ! j = x"
proof -
  assume a: "py_index xs i = Inr x"
  show ?thesis
  proof (cases "0 \<le> i")
    case True
    with a have "nat i < length xs" "xs ! nat i = x"
      by (auto simp: py_index_def split: if_splits)
    then show ?thesis by blast
  next
    case False
    with a have "nat (int (length xs) + i) < length xs" "xs ! nat (int (length xs) + i) = x"
      by (auto simp: py_index_def split: if_splits)
    then show ?thesis by blast
  qed
qed

text \<open>
  Claim C9 does not hold as stated: not every call reaches the name \<^verbatim>\<open>path\<close>.  When the
  metadata names one video twice, \<^verbatim>\<open>preprocess\<close> leaves the index 1 of its two indices
  \<^verbatim>\<open>None\<close>, and the access at index 1 fails at \<^verbatim>\<open>self.data[index]['video_id']\<close> with
  \<^verbatim>\<open>TypeError\<close>.
\<close>

theorem getitem_captions_none_raises_type_error:
  "preprocess [] [meta_a, meta_a] 2 key2idx_ab [] =
     Inr (cap_data duplicate_captions, cap_heap duplicate_captions)
   \<and> cap_data duplicate_captions = [Some 0, None]
   \<and> getitem_captions duplicate_captions 1 0 0 = Raised TypeError"
proof -
  have d: "fst (projr (preprocess [] [meta_a, meta_a] 2 key2idx_ab [])) = [Some 0, None]"
    by code_simp
  have "(case preprocess [] [meta_a, meta_a] 2 key2idx_ab [] of Inl e \<Rightarrow> False | Inr r \<Rightarrow> True)"
    by code_simp
  then obtain r where "preprocess [] [meta_a, meta_a] 2 key2idx_ab [] = Inr r"
    by (cases "preprocess [] [meta_a, meta_a] 2 key2idx_ab []") simp_all
  then have p: "preprocess [] [meta_a, meta_a] 2 key2idx_ab [] =
     Inr (cap_data duplicate_captions, cap_heap duplicate_captions)"
    by (simp add: duplicate_captions_def)
  have c: "cap_data duplicate_captions = [Some 0, None]"
    by (simp add: duplicate_captions_def d)
  have "py_index (cap_data duplicate_captions) 1 = Inr None"
    by (simp add: c py_index_def)
  then have g: "getitem_captions duplicate_captions 1 0 0 = Raised TypeError"
    by (simp add: getitem_captions_def)
  from p c g show ?thesis by simp
qed

text \<open>
  Claim C9, amended.  No access returns a (clip, target) tuple.  On the data that
  \<^verbatim>\<open>preprocess\<close> built, an access at an index that holds a dictionary reaches the name
  \<^verbatim>\<open>path\<close>, which is bound nowhere, and raises \<^verbatim>\<open>NameError\<close>.  An access at an index
  that \<^verbatim>\<open>preprocess\<close> left \<^verbatim>\<open>None\<close> fails before, with \<^verbatim>\<open>TypeError\<close>, and one at an
  index out of range with \<^verbatim>\<open>IndexError\<close>.
\<close>

theorem getitem_captions_raises_name_error:
  "(\<forall>x. getitem_captions ds index tseed sseed \<noteq> Returned x)
   \<and> (preprocess predata metadata vidnum key2idx h = Inr (cap_data ds, cap_heap ds)
        \<and> py_index (cap_data ds) index = Inr (Some a) \<longrightarrow>
      getitem_captions ds index tseed sseed = Raised NameError)
   \<and> (py_index (cap_data ds) index = Inr None \<longrightarrow>
      getitem_captions ds index tseed sseed = Raised TypeError)
   \<and> (py_index (cap_data ds) index = Inl IndexError \<longrightarrow>
      getitem_captions ds index tseed sseed = Raised IndexError)"
proof (intro conjI allI impI)
  fix x show "getitem_captions ds index tseed sseed \<noteq> Returned x"
    by (rule getitem_captions_never_returns)
next
  assume asm: "preprocess predata metadata vidnum key2idx h = Inr (cap_data ds, cap_heap ds)
        \<and> py_index (cap_data ds) index = Inr (Some a)"
  then have pi: "py_index (cap_data ds) index = Inr (Some a)" by (rule conjunct2)
  from asm have pp: "preprocess predata metadata vidnum key2idx h = Inr (cap_data ds, cap_heap ds)"
    by (rule conjunct1)
  from py_index_nth [OF pi] obtain i where
    i: "i < length (cap_data ds)" "cap_data ds ! i = Some a"
    by blast
  from preprocess_all_tmp [OF pp] have "all_tmp (length h) (cap_data ds) (cap_heap ds)"
    by (rule conjunct1)
  with i have "has_meta (cap_heap ds ! a)"
    unfolding all_tmp_def by blast
  then obtain v n where
    vn: "(cap_heap ds ! a) ''video_id'' = Some (VStr v)"
        "(cap_heap ds ! a) ''num_frames'' = Some (VInt n)"
    unfolding has_meta_def by blast
  show "getitem_captions ds index tseed sseed = Raised NameError"
    by (simp add: getitem_captions_def pi vn lookup_name_path)
next
  assume "py_index (cap_data ds) index = Inr None"
  then show "getitem_captions ds index tseed sseed = Raised TypeError"
    by (simp add: getitem_captions_def)
next
  assume "py_index (cap_data ds) index = Inl IndexError"
  then show "getitem_captions ds index tseed sseed = Raised IndexError"
    by (simp add: getitem_captions_def)
qed

theorem getitem_captions_raises_name_error_witness:
  "preprocess [] [meta_a, meta_b] 2 key2idx_ab [] =
     Inr (cap_data example_captions, cap_heap example_captions)
   \<and> py_index (cap_data example_captions) 1 = Inr (Some 0)
   \<and> getitem_captions example_captions 1 0 0 = Raised NameError
   \<and> py_index (cap_data example_captions) 2 = Inl IndexError
   \<and> getitem_captions example_captions 2 0 0 = Raised IndexError
   \<and> py_index (cap_data duplicate_captions) (- 1) = Inr None
   \<and> getitem_captions duplicate_captions (- 1) 0 0 = Raised TypeError"
proof -
  have d: "fst (projr (preprocess [] [meta_a, meta_b] 2 key2idx_ab [])) = [Some 0, Some 0]"
    by code_simp
  have "(case preprocess [] [meta_a, meta_b] 2 key2idx_ab [] of Inl e \<Rightarrow> False | Inr r \<Rightarrow> True)"
    by code_simp
  then obtain r where "preprocess [] [meta_a, meta_b] 2 key2idx_ab [] = Inr r"
    by (cases "preprocess [] [meta_a, meta_b] 2 key2idx_ab []") simp_all
  then have p: "preprocess [] [meta_a, meta_b] 2 key2idx_ab [] =
     Inr (cap_data example_captions, cap_heap example_captions)"
    by (simp add: example_captions_def)
  have i: "py_index (cap_data example_captions) 1 = Inr (Some 0)"
    by (simp add: example_captions_def d py_index_def)
  have o: "py_index (cap_data example_captions) 2 = Inl IndexError"
    by (simp add: example_captions_def d py_index_def)
  note t = getitem_captions_raises_name_error
    [of example_captions _ 0 0 "[]" "[meta_a, meta_b]" 2 key2idx_ab "[]" 0]
  from t [of 1] p i have n: "getitem_captions example_captions 1 0 0 = Raised NameError"
    by blast
  from t [of 2] o have e: "getitem_captions example_captions 2 0 0 = Raised IndexError"
    by blast
  have dd: "fst (projr (preprocess [] [meta_a, meta_a] 2 key2idx_ab [])) = [Some 0, None]"
    by code_simp
  have l: "py_index (cap_data duplicate_captions) (- 1) = Inr None"
    by (simp add: duplicate_captions_def dd py_index_def)
  from getitem_captions_raises_name_error [of duplicate_captions "- 1" 0 0] l
  have y: "getitem_captions duplicate_captions (- 1) 0 0 = Raised TypeError"
    by blast
  from p i n o e l y show ?thesis by simp
qed

end
